theory Spec2Isabelle
  imports Main "HOL-Library.Sublist"
begin

section \<open>Python values of the decoded tree\<close>

text \<open>
  \<open>demjson3.decode\<close> returns nested Python data: \<open>None\<close>, booleans, integers, strings,
  lists and dicts. A dict keeps its insertion order, so it is an association list; its
  keys are strings or numbers. Numbers are Python's unbounded integers (\<open>int\<close>); numbers
  with a fraction are not part of the model. A character of a string is a code point below
  256.
\<close>

datatype pkey = KStr string | KInt int

datatype jv =
    JNull
  | JBool bool
  | JInt int
  | JStr string
  | JList "jv list"
  | JDict "(pkey \<times> jv) list"

text \<open>
  Exceptions are values. \<open>HTTPException\<close> is FastAPI's (status code and detail),
  \<open>RequestError\<close> and \<open>HTTPStatusError\<close> are httpx's (two separate subclasses of
  \<open>httpx.HTTPError\<close>), \<open>JSONDecodeError\<close> is demjson3's; the others are built in.
\<close>

datatype exn =
    KeyError pkey
  | IndexError string
  | TypeError string
  | AttributeError string string
  | JSONDecodeError string
  | RequestError string
  | HTTPStatusError nat
  | HTTPException nat string

text \<open>Sequencing of statements that may raise: the first exception ends the block.\<close>

definition on_ok :: "exn + 'a \<Rightarrow> ('a \<Rightarrow> exn + 'b) \<Rightarrow> exn + 'b" where
  "on_ok r k = (case r of Inl e \<Rightarrow> Inl e | Inr v \<Rightarrow> k v)"

subsection \<open>\<open>str\<close>, \<open>repr\<close> and string formatting\<close>

definition digit_char :: "nat \<Rightarrow> char" where
  "digit_char n = ''0123456789abcdef'' ! n"

function show_nat :: "nat \<Rightarrow> string" where
  "show_nat n = (if n < 10 then [digit_char n] else show_nat (n div 10) @ [digit_char (n mod 10)])"
  by pat_completeness auto
termination
  by (relation "measure (\<lambda>n. n)") auto

declare show_nat.simps [simp del]

definition show_int :: "int \<Rightarrow> string" where
  "show_int i = (if i < 0 then CHR ''-'' # show_nat (nat (- i)) else show_nat (nat i))"

definition squote :: char where
  "squote = CHR 0x27"

definition dquote :: char where
  "dquote = CHR 0x22"

definition backslash :: char where
  "backslash = CHR 0x5C"

definition printable :: "char \<Rightarrow> bool" where
  "printable c = (let n = (of_char c :: nat) in
     \<not> (n < 32 \<or> n = 127 \<or> (128 \<le> n \<and> n \<le> 160) \<or> n = 173))"

definition repr_char :: "char \<Rightarrow> char \<Rightarrow> string" where
  "repr_char q c =
     (if c = q \<or> c = backslash then [backslash, c]
      else if c = CHR 0x09 then [backslash, CHR ''t'']
      else if c = CHR 0x0A then [backslash, CHR ''n'']
      else if c = CHR 0x0D then [backslash, CHR ''r'']
      else if \<not> printable c then
        [backslash, CHR ''x'', digit_char ((of_char c :: nat) div 16),
         digit_char ((of_char c :: nat) mod 16)]
      else [c])"

definition str_repr :: "string \<Rightarrow> string" where
  "str_repr s =
     (let q = (if squote \<in> set s \<and> dquote \<notin> set s then dquote else squote)
      in q # concat (map (repr_char q) s) @ [q])"

fun join :: "string \<Rightarrow> string list \<Rightarrow> string" where
  "join sep [] = []"
| "join sep [x] = x"
| "join sep (x # y # ys) = x @ sep @ join sep (y # ys)"

definition key_repr :: "pkey \<Rightarrow> string" where
  "key_repr k = (case k of KStr s \<Rightarrow> str_repr s | KInt i \<Rightarrow> show_int i)"

fun py_repr :: "jv \<Rightarrow> string"
  and repr_items :: "jv list \<Rightarrow> string list"
  and repr_pairs :: "(pkey \<times> jv) list \<Rightarrow> string list" where
  "py_repr JNull = ''None''"
| "py_repr (JBool b) = (if b then ''True'' else ''False'')"
| "py_repr (JInt i) = show_int i"
| "py_repr (JStr s) = str_repr s"
| "py_repr (JList xs) = ''['' @ join '', '' (repr_items xs) @ '']''"
| "py_repr (JDict d) = ''{'' @ join '', '' (repr_pairs d) @ ''}''"
| "repr_items [] = []"
| "repr_items (x # xs) = py_repr x # repr_items xs"
| "repr_pairs [] = []"
| "repr_pairs ((k, v) # d) = (key_repr k @ '': '' @ py_repr v) # repr_pairs d"

text \<open>
  \<open>str(x)\<close>, which is also what an f-string field \<open>{x}\<close> inserts: a string is inserted
  as it is, any other value as its \<open>repr\<close>.
\<close>

definition py_str :: "jv \<Rightarrow> string" where
  "py_str v = (case v of JStr s \<Rightarrow> s | _ \<Rightarrow> py_repr v)"

definition type_name :: "jv \<Rightarrow> string" where
  "type_name v =
     (case v of JNull \<Rightarrow> ''NoneType'' | JBool _ \<Rightarrow> ''bool'' | JInt _ \<Rightarrow> ''int''
      | JStr _ \<Rightarrow> ''str'' | JList _ \<Rightarrow> ''list'' | JDict _ \<Rightarrow> ''dict'')"

definition quoted :: "string \<Rightarrow> string" where
  "quoted s = squote # s @ [squote]"

text \<open>
  \<open>str(e)\<close> of an exception, as the handlers put it into the detail. The program takes
  it of the exceptions its two handlers catch only; of httpx's message of an
  HTTPStatusError the status code alone is kept.
\<close>

definition exn_str :: "exn \<Rightarrow> string" where
  "exn_str e =
     (case e of
        KeyError k \<Rightarrow> key_repr k
      | IndexError m \<Rightarrow> m
      | TypeError m \<Rightarrow> m
      | AttributeError ty a \<Rightarrow> quoted ty @ '' object has no attribute '' @ quoted a
      | JSONDecodeError m \<Rightarrow> m
      | RequestError m \<Rightarrow> m
      | HTTPStatusError n \<Rightarrow> ''status '' @ show_nat n
      | HTTPException n d \<Rightarrow> show_nat n @ '': '' @ d)"

subsection \<open>Subscripting, \<open>dict.get\<close>, truth values\<close>

text \<open>
  \<open>x[i]\<close> for a literal index \<open>i \<ge> 0\<close>: a list or a string raises IndexError out of
  range, a dict looks the integer up as a key (KeyError when absent), any other value is
  not subscriptable (TypeError).
\<close>

definition py_getitem :: "jv \<Rightarrow> nat \<Rightarrow> exn + jv" where
  "py_getitem v i =
     (case v of
        JList xs \<Rightarrow>
          if i < length xs then Inr (xs ! i) else Inl (IndexError ''list index out of range'')
      | JStr s \<Rightarrow>
          if i < length s then Inr (JStr [s ! i])
          else Inl (IndexError ''string index out of range'')
      | JDict d \<Rightarrow>
          (case map_of d (KInt (int i)) of
             Some x \<Rightarrow> Inr x
           | None \<Rightarrow> Inl (KeyError (KInt (int i))))
      | _ \<Rightarrow> Inl (TypeError (quoted (type_name v) @ '' object is not subscriptable'')))"

text \<open>\<open>x.get(k, default)\<close>: only a dict has the method.\<close>

definition py_get :: "jv \<Rightarrow> string \<Rightarrow> jv \<Rightarrow> exn + jv" where
  "py_get v k dflt =
     (case v of
        JDict d \<Rightarrow> Inr (case map_of d (KStr k) of Some x \<Rightarrow> x | None \<Rightarrow> dflt)
      | _ \<Rightarrow> Inl (AttributeError (type_name v) ''get''))"

definition py_bool :: "jv \<Rightarrow> bool" where
  "py_bool v =
     (case v of JNull \<Rightarrow> False | JBool b \<Rightarrow> b | JInt i \<Rightarrow> i \<noteq> 0 | JStr s \<Rightarrow> s \<noteq> []
      | JList xs \<Rightarrow> xs \<noteq> [] | JDict d \<Rightarrow> d \<noteq> [])"

text \<open>\<open>for x in v\<close>: the elements of a list, the characters of a string, the keys of a dict.\<close>

definition key_value :: "pkey \<Rightarrow> jv" where
  "key_value k = (case k of KStr s \<Rightarrow> JStr s | KInt i \<Rightarrow> JInt i)"

definition py_iter :: "jv \<Rightarrow> exn + jv list" where
  "py_iter v =
     (case v of
        JList xs \<Rightarrow> Inr xs
      | JStr s \<Rightarrow> Inr (map (\<lambda>c. JStr [c]) s)
      | JDict d \<Rightarrow> Inr (map (\<lambda>(k, x). key_value k) d)
      | _ \<Rightarrow> Inl (TypeError (quoted (type_name v) @ '' object is not iterable'')))"

text \<open>\<open>needle in haystack\<close> on strings.\<close>

definition str_contains :: "string \<Rightarrow> string \<Rightarrow> bool" where
  "str_contains needle hay = sublist needle hay"


section \<open>The program (main.py)\<close>

subsection \<open>The shared HTTP client\<close>

text \<open>
  The module owns one \<open>httpx.AsyncClient\<close>. What the transport answers is outside the
  program: it is a parameter \<open>net\<close>, from the URL and the client's internal state
  (connection pool, cookies) to either an exception raised by \<open>get\<close> or a response, and the
  client's next internal state. The model logs every request the client sends.
\<close>

record response =
  status_code :: nat
  body :: string

record 'c client =
  requests :: "string list"
  session :: 'c

type_synonym 'c transport = "string \<Rightarrow> 'c \<Rightarrow> (exn + response) \<times> 'c"

definition client_get :: "'c transport \<Rightarrow> string \<Rightarrow> 'c client \<Rightarrow> (exn + response) \<times> 'c client" where
  "client_get net u st =
     (let (r, s') = net u (session st)
      in (r, st\<lparr>requests := requests st @ [u], session := s'\<rparr>))"

text \<open>\<open>response.raise_for_status()\<close>: HTTPStatusError unless the status is 2xx.\<close>

definition raise_for_status :: "response \<Rightarrow> exn + response" where
  "raise_for_status r =
     (if 200 \<le> status_code r \<and> status_code r \<le> 299 then Inr r
      else Inl (HTTPStatusError (status_code r)))"

subsection \<open>Locating the data block\<close>

text \<open>
  \<open>re.search(r'AF_initDataCallback\((.*?)\);</script>', text, re.DOTALL)\<close>: the leftmost
  occurrence of the opening literal, then the shortest run of any characters up to the
  closing literal. \<open>after_first\<close> gives what follows the first occurrence of a literal,
  \<open>before_first\<close> what precedes it.
\<close>

fun after_first :: "string \<Rightarrow> string \<Rightarrow> string option" where
  "after_first pat [] = (if pat = [] then Some [] else None)"
| "after_first pat (c # cs) =
     (if prefix pat (c # cs) then Some (drop (length pat) (c # cs)) else after_first pat cs)"

fun before_first :: "string \<Rightarrow> string \<Rightarrow> string option" where
  "before_first pat [] = (if pat = [] then Some [] else None)"
| "before_first pat (c # cs) =
     (if prefix pat (c # cs) then Some [] else map_option ((#) c) (before_first pat cs))"

definition re_search :: "string \<Rightarrow> string option" where
  "re_search txt =
     (case after_first ''AF_initDataCallback('' txt of
        None \<Rightarrow> None
      | Some rest \<Rightarrow> before_first '');</script>'' rest)"

subsection \<open>Extraction\<close>

record stream =
  label :: string
  url :: string

record extraction_result =
  status :: bool
  host :: string
  filecode :: jv
  poster :: string
  streams :: "stream list"
  download :: jv
  vtt :: jv

text \<open>Lines 64 to 67: the inner loop over \<open>item.values()\<close>, left at the first match.\<close>

definition is_stream_block :: "jv \<Rightarrow> bool" where
  "is_stream_block v =
     (case v of
        JList xs \<Rightarrow> length xs > 7 \<and> (case xs ! 7 of JList _ \<Rightarrow> True | _ \<Rightarrow> False)
      | _ \<Rightarrow> False)"

fun scan_values :: "jv option \<Rightarrow> jv list \<Rightarrow> jv option" where
  "scan_values sdb [] = sdb"
| "scan_values sdb (v # vs) = (if is_stream_block v then Some v else scan_values sdb vs)"

text \<open>
  Lines 62 to 69: the outer loop over \<open>video_info_block\<close>; \<open>if stream_data_block: break\<close>
  tests the truth value of the variable, \<open>None\<close> being false.
\<close>

definition truthy :: "jv option \<Rightarrow> bool" where
  "truthy sdb = (case sdb of None \<Rightarrow> False | Some v \<Rightarrow> py_bool v)"

fun scan_items :: "jv option \<Rightarrow> jv list \<Rightarrow> jv option" where
  "scan_items sdb [] = sdb"
| "scan_items sdb (item # items) =
     (let sdb' = (case item of JDict d \<Rightarrow> scan_values sdb (map snd d) | _ \<Rightarrow> sdb)
      in if truthy sdb' then sdb' else scan_items sdb' items)"

definition find_stream_data_block :: "jv list \<Rightarrow> jv option" where
  "find_stream_data_block video_info_block = scan_items None video_info_block"

text \<open>Lines 78 to 85: one entry of the list comprehension, and the comprehension.\<close>

definition quality_map :: "string \<rightharpoonup> string" where
  "quality_map =
     map_of [(''37'', ''1080p''), (''22'', ''720p''), (''18'', ''360p''), (''36'', ''180p'')]"

definition stream_entry :: "jv \<Rightarrow> jv \<Rightarrow> exn + stream" where
  "stream_entry base_url quality =
     on_ok (py_getitem quality 0) (\<lambda>code.
     on_ok (py_getitem quality 1) (\<lambda>width.
     on_ok (py_getitem quality 2) (\<lambda>height.
     on_ok (py_getitem quality 0) (\<lambda>code'.
       Inr \<lparr>label = (case quality_map (py_str code) of
                       Some l \<Rightarrow> l
                     | None \<Rightarrow> ''Resolution '' @ py_str width @ ''x'' @ py_str height),
            url = py_str base_url @ ''=m'' @ py_str code'\<rparr>))))"

fun stream_urls :: "jv \<Rightarrow> jv list \<Rightarrow> exn + stream list" where
  "stream_urls base_url [] = Inr []"
| "stream_urls base_url (quality # rest) =
     on_ok (stream_entry base_url quality) (\<lambda>s.
     on_ok (stream_urls base_url rest) (\<lambda>ss. Inr (s # ss)))"

text \<open>
  Lines 52 to 75: the fields read from the decoded tree, in the order the code reads them:
  base URL, file code, download URL, quality list.
\<close>

definition locate_fields :: "jv \<Rightarrow> exn + (jv \<times> jv \<times> jv \<times> jv)" where
  "locate_fields data =
     on_ok (py_get data ''data'' (JList [])) (\<lambda>d.
     on_ok (py_getitem d 0) (\<lambda>video_info_block.
       case video_info_block of
         JList items \<Rightarrow>
           if length items < 2 then Inl (HTTPException 500 ''Invalid video info format'')
           else
             on_ok (py_getitem video_info_block 1) (\<lambda>v1.
             on_ok (py_getitem v1 0) (\<lambda>base_url.
             on_ok (py_getitem video_info_block 0) (\<lambda>file_code.
             on_ok (py_get data ''data'' (JList [])) (\<lambda>d'.
             on_ok (py_getitem d' 1) (\<lambda>download_url.
               let stream_data_block = find_stream_data_block items
               in if \<not> truthy stream_data_block
                  then Inl (HTTPException 500 ''Stream data block not found'')
                  else
                    on_ok (py_getitem (the stream_data_block) 7) (\<lambda>quality_info.
                      Inr (base_url, file_code, download_url, quality_info)))))))
       | _ \<Rightarrow> Inl (HTTPException 500 ''Invalid video info format'')))"

text \<open>Lines 52 to 95: the body of the \<open>try\<close> after decoding.\<close>

definition try_body :: "jv \<Rightarrow> exn + extraction_result" where
  "try_body data =
     on_ok (locate_fields data) (\<lambda>(base_url, file_code, download_url, quality_info).
     on_ok (py_iter quality_info) (\<lambda>qs.
     on_ok (stream_urls base_url qs) (\<lambda>stream_urls.
       Inr \<lparr>status = True,
            host = ''googlephoto'',
            filecode = file_code,
            poster = py_str base_url @ ''=w1920-h1080-no'',
            streams = stream_urls,
            download = download_url,
            vtt = JNull\<rparr>)))"

text \<open>
  Lines 50 to 99: \<open>try\<close> and \<open>except (KeyError, IndexError, TypeError, JSONDecodeError)\<close>.
  The decoder is demjson3's: a parameter, from the block's text to the exception it raises or
  the tree.
\<close>

definition parse_caught :: "exn \<Rightarrow> bool" where
  "parse_caught e =
     (case e of KeyError _ \<Rightarrow> True | IndexError _ \<Rightarrow> True | TypeError _ \<Rightarrow> True
      | JSONDecodeError _ \<Rightarrow> True | _ \<Rightarrow> False)"

definition parse_handler :: "exn + 'a \<Rightarrow> exn + 'a" where
  "parse_handler r =
     (case r of
        Inl e \<Rightarrow>
          if parse_caught e then Inl (HTTPException 500 (''Could not parse data: '' @ exn_str e))
          else Inl e
      | Inr v \<Rightarrow> Inr v)"

definition extract_tree :: "jv \<Rightarrow> exn + extraction_result" where
  "extract_tree data = parse_handler (try_body data)"

definition parse_block :: "(string \<Rightarrow> exn + jv) \<Rightarrow> string \<Rightarrow> exn + extraction_result" where
  "parse_block decode txt = parse_handler (on_ok (decode txt) try_body)"

text \<open>Lines 36 to 42: the fetch, and \<open>except httpx.RequestError\<close>.\<close>

definition fetch_caught :: "exn \<Rightarrow> bool" where
  "fetch_caught e = (case e of RequestError _ \<Rightarrow> True | _ \<Rightarrow> False)"

definition fetch :: "'c transport \<Rightarrow> string \<Rightarrow> 'c client \<Rightarrow> (exn + response) \<times> 'c client" where
  "fetch net u st =
     (let (got, st') = client_get net u st
      in (case on_ok got raise_for_status of
            Inl e \<Rightarrow>
              if fetch_caught e
              then Inl (HTTPException 500 (''Could not fetch URL: '' @ exn_str e))
              else Inl e
          | Inr r \<Rightarrow> Inr r,
          st'))"

definition get_google_photos_links ::
  "'c transport \<Rightarrow> (string \<Rightarrow> exn + jv) \<Rightarrow> string \<Rightarrow> 'c client
     \<Rightarrow> (exn + extraction_result) \<times> 'c client" where
  "get_google_photos_links net decode u st =
     (let (got, st') = fetch net u st
      in (on_ok got (\<lambda>r.
            case re_search (body r) of
              None \<Rightarrow> Inl (HTTPException 500 ''Could not find data block'')
            | Some txt \<Rightarrow> parse_block decode txt),
          st'))"

text \<open>
  Lines 101 to 114: the handler of \<open>GET /extract\<close>. The value it is given is the dict
  literal of line 87, which has seven keys and so is true: \<open>if not result\<close>.
\<close>

definition result_bool :: "extraction_result \<Rightarrow> bool" where
  "result_bool r = True"

definition extract_links ::
  "'c transport \<Rightarrow> (string \<Rightarrow> exn + jv) \<Rightarrow> string \<Rightarrow> 'c client
     \<Rightarrow> (exn + extraction_result) \<times> 'c client" where
  "extract_links net decode URL st =
     (if URL = [] \<or> (\<not> str_contains ''photos.app.goo.gl'' URL
                      \<and> \<not> str_contains ''photos.google.com'' URL)
      then (Inl (HTTPException 400 ''Invalid or missing Google Photos URL''), st)
      else
        (let (result, st') = get_google_photos_links net decode URL st
         in (on_ok result (\<lambda>r.
               if \<not> result_bool r then Inl (HTTPException 500 ''Failed to extract links'')
               else Inr r),
             st')))"

section \<open>The scan, as the specification words it\<close>

text \<open>
  The values the scan of lines 62 to 69 meets, in the order it meets them: the elements of
  \<open>video_info_block\<close> in order, and of each element that is a dict its values in insertion
  order.
\<close>

definition dict_values :: "jv \<Rightarrow> jv list" where
  "dict_values item = (case item of JDict d \<Rightarrow> map snd d | _ \<Rightarrow> [])"

section \<open>Example inputs\<close>

text \<open>The tree of the specification's example, and the result it names.\<close>

definition example_tree :: jv where
  "example_tree =
     JDict [(KStr ''data'',
       JList [JList [JStr ''FC1'',
                     JList [JStr ''https://base.url'', JInt 0],
                     JDict [(KStr ''k'',
                        JList [JInt 0, JInt 0, JInt 0, JInt 0, JInt 0, JInt 0, JInt 0,
                               JList [JList [JInt 37, JInt 1920, JInt 1080],
                                      JList [JInt 18, JInt 640, JInt 360]]])]],
              JStr ''https://download.url''])]"

definition example_result :: extraction_result where
  "example_result =
     \<lparr>status = True, host = ''googlephoto'', filecode = JStr ''FC1'',
      poster = ''https://base.url=w1920-h1080-no'',
      streams = [\<lparr>label = ''1080p'', url = ''https://base.url=m37''\<rparr>,
                 \<lparr>label = ''360p'', url = ''https://base.url=m18''\<rparr>],
      download = JStr ''https://download.url'', vtt = JNull\<rparr>"

text \<open>A video info block with three values that qualify as stream data block.\<close>

definition block_of :: "jv list \<Rightarrow> jv" where
  "block_of qs = JList [JInt 0, JInt 0, JInt 0, JInt 0, JInt 0, JInt 0, JInt 0, JList qs]"

definition two_blocks :: "jv list" where
  "two_blocks =
     [JStr ''FC1'',
      JList [JStr ''https://base.url''],
      JDict [(KStr ''a'', JList [JInt 1]), (KStr ''b'', block_of [JList [JInt 22, JInt 1280, JInt 720]]),
             (KStr ''c'', block_of [])],
      JDict [(KStr ''d'', block_of [JList [JInt 18, JInt 640, JInt 360]])]]"

text \<open>
  A transport that answers every request with status 404, and one whose every request times
  out. The session state counts the requests the transport has seen.
\<close>

definition not_found_net :: "nat transport" where
  "not_found_net u s = (Inr \<lparr>status_code = 404, body = ''Not Found''\<rparr>, Suc s)"

definition timeout_net :: "nat transport" where
  "timeout_net u s = (Inl (RequestError ''timed out''), Suc s)"

text \<open>
  A page that carries a data block, a transport that serves it, and a decoder that yields
  the example tree for the text of that block.
\<close>

definition example_page :: string where
  "example_page = ''<script>AF_initDataCallback({data: 1});</script>''"

definition example_net :: "nat transport" where
  "example_net u s = (Inr \<lparr>status_code = 200, body = example_page\<rparr>, Suc s)"

definition example_decode :: "string \<Rightarrow> exn + jv" where
  "example_decode txt =
     (if txt = ''{data: 1}'' then Inr example_tree else Inl (JSONDecodeError ''unexpected''))"

definition example_url :: string where
  "example_url = ''https://photos.app.goo.gl/abc''"

definition fresh_client :: "nat client" where
  "fresh_client = \<lparr>requests = [], session = 0\<rparr>"

text \<open>A page whose data block is the empty list, and a decoder for it.\<close>

definition list_page :: string where
  "list_page = ''<script>AF_initDataCallback([]);</script>''"

definition list_net :: "nat transport" where
  "list_net u s = (Inr \<lparr>status_code = 200, body = list_page\<rparr>, Suc s)"

definition list_decode :: "string \<Rightarrow> exn + jv" where
  "list_decode txt = (if txt = ''[]'' then Inr (JList []) else Inl (JSONDecodeError ''unexpected''))"

text \<open>A tree whose only dict value is too short to be a stream data block.\<close>

definition no_block_tree :: jv where
  "no_block_tree =
     JDict [(KStr ''data'',
       JList [JList [JStr ''FC1'', JList [JStr ''https://base.url'', JInt 0],
                     JDict [(KStr ''k'', JList [JInt 0, JInt 0, JInt 0])]],
              JStr ''https://download.url''])]"


section \<open>Auxiliary facts\<close>

subsection \<open>Sequencing\<close>

lemma on_ok_Inr_iff: "on_ok r k = Inr y \<longleftrightarrow> (\<exists>v. r = Inr v \<and> k v = Inr y)"
  by (cases r) (simp_all add: on_ok_def)

lemma on_ok_Inl_iff: "on_ok r k = Inl e \<longleftrightarrow> r = Inl e \<or> (\<exists>v. r = Inr v \<and> k v = Inl e)"
  by (cases r) (simp_all add: on_ok_def)

lemma on_ok_Inr [simp]: "on_ok (Inr v) k = k v"
  by (simp add: on_ok_def)

lemma on_ok_Inl [simp]: "on_ok (Inl e) k = Inl e"
  by (simp add: on_ok_def)

lemma parse_handler_Inr_iff: "parse_handler r = Inr v \<longleftrightarrow> r = Inr v"
  by (cases r) (simp_all add: parse_handler_def)

subsection \<open>Subscripting\<close>

lemma py_getitem_list: "py_getitem (JList xs) i = Inr x \<longleftrightarrow> i < length xs \<and> x = xs ! i"
  by (auto simp: py_getitem_def)

lemma py_getitem_in_range: "i < length xs \<Longrightarrow> py_getitem (JList xs) i = Inr (xs ! i)"
  by (simp add: py_getitem_def)

lemma py_getitem_Inl_caught: "py_getitem v i = Inl e \<Longrightarrow> parse_caught e"
  by (auto simp: py_getitem_def parse_caught_def split: jv.splits if_splits option.splits)

lemma py_iter_Inl_caught: "py_iter v = Inl e \<Longrightarrow> parse_caught e"
  by (auto simp: py_iter_def parse_caught_def split: jv.splits)

subsection \<open>Decimal rendering and the quality codes\<close>

text \<open>
  \<open>str\<close> of an integer determines the integer, and no value other than the integer \<open>n\<close> and
  the string of its digits has the digits of \<open>n\<close> as its \<open>str\<close>. So the quality map, which is
  keyed by \<open>str(code)\<close>, is a map on the codes themselves: the code 37 is the integer 37 or the
  string \<open>37\<close>.
\<close>

lemma digit_char_inj:
  assumes "i < 16" "j < 16" "digit_char i = digit_char j"
  shows "i = j"
proof -
  have d: "distinct ''0123456789abcdef''" by simp
  have l: "length ''0123456789abcdef'' = 16" by simp
  from assms show ?thesis
    unfolding digit_char_def using nth_eq_iff_index_eq [OF d, of i j] l by simp
qed

lemma show_nat_small: "n < 10 \<Longrightarrow> show_nat n = [digit_char n]"
  by (simp add: show_nat.simps)

lemma show_nat_large:
  "10 \<le> n \<Longrightarrow> show_nat n = show_nat (n div 10) @ [digit_char (n mod 10)]"
  by (subst show_nat.simps) simp

lemma show_nat_not_Nil: "show_nat n \<noteq> []"
  by (subst show_nat.simps) simp

lemma show_nat_not_Nil2: "[] \<noteq> show_nat n"
  using show_nat_not_Nil [of n] by simp

lemma show_nat_inj: "show_nat a = show_nat b \<Longrightarrow> a = b"
proof (induction a arbitrary: b rule: show_nat.induct)
  case (1 a)
  show ?case
  proof (cases "a < 10")
    case True
    note a = this
    show ?thesis
    proof (cases "b < 10")
      case True
      with a "1.prems" have "digit_char a = digit_char b"
        by (simp add: show_nat_small)
      with a True show ?thesis
        using digit_char_inj [of a b] by simp
    next
      case False
      with a "1.prems" show ?thesis
        by (simp add: show_nat_small show_nat_large show_nat_not_Nil show_nat_not_Nil2)
    qed
  next
    case False
    note a = this
    show ?thesis
    proof (cases "b < 10")
      case True
      with a "1.prems" show ?thesis
        by (simp add: show_nat_small show_nat_large show_nat_not_Nil show_nat_not_Nil2)
    next
      case False
      with a "1.prems" have e: "show_nat (a div 10) = show_nat (b div 10)"
        and d: "digit_char (a mod 10) = digit_char (b mod 10)"
        by (simp_all add: show_nat_large)
      from "1.IH" [OF a e] have "a div 10 = b div 10" .
      moreover from d have "a mod 10 = b mod 10"
        using digit_char_inj [of "a mod 10" "b mod 10"] by simp
      ultimately show ?thesis
        by (metis div_mult_mod_eq)
    qed
  qed
qed

lemma show_nat_head: "hd (show_nat n) \<in> set ''0123456789''"
proof (induction n rule: show_nat.induct)
  case (1 n)
  show ?case
  proof (cases "n < 10")
    case True
    then have "n \<in> {0, 1, 2, 3, 4, 5, 6, 7, 8, 9}" by auto
    then show ?thesis
      by (auto simp: show_nat_small [OF True] digit_char_def)
  next
    case False
    with 1 show ?thesis
      by (simp add: show_nat_large show_nat_not_Nil)
  qed
qed

lemma show_nat_first:
  assumes "show_nat n = c # cs"
  shows "c \<in> set ''0123456789''"
  using show_nat_head [of n] assms by simp

lemma show_nat_first2:
  assumes "c # cs = show_nat n"
  shows "c \<in> set ''0123456789''"
  using show_nat_first [of n c cs] assms by simp

lemma py_str_eq_show_nat:
  "py_str v = show_nat n \<longleftrightarrow> v = JInt (int n) \<or> v = JStr (show_nat n)"
proof (cases v)
  case JNull
  then show ?thesis
    by (auto simp: py_str_def dest: show_nat_first2)
next
  case (JBool b)
  then show ?thesis
    by (auto simp: py_str_def dest: show_nat_first2)
next
  case (JInt i)
  show ?thesis
  proof (cases "i < 0")
    case True
    with JInt show ?thesis
      by (auto simp: py_str_def show_int_def dest: show_nat_first2)
  next
    case False
    with JInt show ?thesis
      by (auto simp: py_str_def show_int_def dest: show_nat_inj)
  qed
next
  case (JStr s)
  then show ?thesis by (auto simp: py_str_def)
next
  case (JList xs)
  then show ?thesis
    by (auto simp: py_str_def dest: show_nat_first2)
next
  case (JDict d)
  then show ?thesis
    by (auto simp: py_str_def dest: show_nat_first2)
qed

lemma known_code_strings:
  "show_nat 37 = ''37''" "show_nat 22 = ''22''" "show_nat 18 = ''18''" "show_nat 36 = ''36''"
  by code_simp+

lemma label_of_code:
  "quality_map (py_str code) =
     (if code = JInt 37 \<or> code = JStr ''37'' then Some ''1080p''
      else if code = JInt 22 \<or> code = JStr ''22'' then Some ''720p''
      else if code = JInt 18 \<or> code = JStr ''18'' then Some ''360p''
      else if code = JInt 36 \<or> code = JStr ''36'' then Some ''180p''
      else None)"
  using py_str_eq_show_nat [of code 37] py_str_eq_show_nat [of code 22]
    py_str_eq_show_nat [of code 18] py_str_eq_show_nat [of code 36]
  unfolding known_code_strings
  by (auto simp: quality_map_def)

subsection \<open>The scan for the stream data block\<close>

lemma find_append_case:
  "List.find P (xs @ ys) = (case List.find P xs of None \<Rightarrow> List.find P ys | Some x \<Rightarrow> Some x)"
  by (induction xs) simp_all

lemma scan_values_find:
  "scan_values sdb vs = (case List.find is_stream_block vs of None \<Rightarrow> sdb | Some v \<Rightarrow> Some v)"
  by (induction vs) simp_all

lemma is_stream_block_iff:
  "is_stream_block v \<longleftrightarrow> (\<exists>xs ys. v = JList xs \<and> 7 < length xs \<and> xs ! 7 = JList ys)"
  by (auto simp: is_stream_block_def split: jv.splits)

lemma stream_block_true: "is_stream_block v \<Longrightarrow> py_bool v"
  by (auto simp: is_stream_block_iff py_bool_def)

lemma find_block_truthy:
  "truthy (List.find is_stream_block vs) \<longleftrightarrow> List.find is_stream_block vs \<noteq> None"
proof (cases "List.find is_stream_block vs")
  case None
  then show ?thesis by (simp add: truthy_def)
next
  case (Some v)
  then have "is_stream_block v" by (auto simp: find_Some_iff)
  with Some show ?thesis by (simp add: truthy_def stream_block_true)
qed

lemma find_block_Some:
  "List.find is_stream_block vs = Some v \<Longrightarrow> \<exists>blk qs. v = JList blk \<and> 7 < length blk \<and> blk ! 7 = JList qs"
  by (auto simp: find_Some_iff is_stream_block_iff)

lemma scan_items_find:
  "scan_items None items = List.find is_stream_block (concat (map dict_values items))"
proof (induction items)
  case Nil
  then show ?case by simp
next
  case (Cons item items)
  let ?here = "List.find is_stream_block (dict_values item)"
  have step: "(case item of JDict d \<Rightarrow> scan_values None (map snd d) | _ \<Rightarrow> None) = ?here"
    by (cases item) (simp_all add: dict_values_def scan_values_find split: option.splits)
  show ?case
  proof (cases ?here)
    case None
    with step Cons.IH show ?thesis
      by (simp add: find_append_case truthy_def)
  next
    case (Some v)
    then have "truthy ?here" using find_block_truthy [of "dict_values item"] by simp
    with step Some show ?thesis
      by (simp add: find_append_case)
  qed
qed

subsection \<open>The list comprehension\<close>

lemma stream_entry_Inr_iff:
  "stream_entry base q = Inr s \<longleftrightarrow>
     (\<exists>code width height.
        py_getitem q 0 = Inr code \<and> py_getitem q 1 = Inr width \<and> py_getitem q 2 = Inr height \<and>
        s = \<lparr>label = (case quality_map (py_str code) of
                         Some l \<Rightarrow> l
                       | None \<Rightarrow> ''Resolution '' @ py_str width @ ''x'' @ py_str height),
              url = py_str base @ ''=m'' @ py_str code\<rparr>)"
  by (auto simp: stream_entry_def on_ok_Inr_iff)

lemma stream_urls_Inr_iff:
  "stream_urls base qs = Inr ss \<longleftrightarrow>
     length ss = length qs \<and> (\<forall>i<length qs. stream_entry base (qs ! i) = Inr (ss ! i))"
proof (induction qs arbitrary: ss)
  case Nil
  then show ?case by auto
next
  case (Cons q qs)
  show ?case
  proof (cases ss)
    case Nil
    then show ?thesis by (auto simp: on_ok_Inr_iff)
  next
    case (Cons s ss')
    then show ?thesis
      by (auto simp: on_ok_Inr_iff Cons.IH nth_Cons split: nat.splits)
  qed
qed

lemma quality_map_label:
  "(case quality_map c of Some l \<Rightarrow> l | None \<Rightarrow> d) =
     (if c = ''37'' then ''1080p'' else if c = ''22'' then ''720p''
      else if c = ''18'' then ''360p'' else if c = ''36'' then ''180p'' else d)"
  by (simp add: quality_map_def)

lemma stream_entry_Inl_caught: "stream_entry base q = Inl e \<Longrightarrow> parse_caught e"
  by (auto simp: stream_entry_def on_ok_Inl_iff dest: py_getitem_Inl_caught)

lemma stream_urls_Inl_caught: "stream_urls base qs = Inl e \<Longrightarrow> parse_caught e"
  by (induction qs arbitrary: e) (auto simp: on_ok_Inl_iff dest: stream_entry_Inl_caught)




subsection \<open>The fields and the result\<close>

lemma locate_fields_Inr_iff:
  "locate_fields data = Inr (base, fc, dl, qi) \<longleftrightarrow>
     (\<exists>d items blk.
        py_get data ''data'' (JList []) = Inr d \<and>
        py_getitem d 0 = Inr (JList items) \<and> 2 \<le> length items \<and>
        py_getitem (items ! 1) 0 = Inr base \<and> fc = items ! 0 \<and>
        py_getitem d 1 = Inr dl \<and>
        List.find is_stream_block (concat (map dict_values items)) = Some (JList blk) \<and>
        7 < length blk \<and> qi = blk ! 7)"
  (is "?L \<longleftrightarrow> ?R")
proof
  assume ?L
  then obtain d vib where d: "py_get data ''data'' (JList []) = Inr d"
    and vib: "py_getitem d 0 = Inr vib"
    and rest: "(case vib of
         JList items \<Rightarrow>
           if length items < 2 then Inl (HTTPException 500 ''Invalid video info format'')
           else
             on_ok (py_getitem vib 1) (\<lambda>v1.
             on_ok (py_getitem v1 0) (\<lambda>base_url.
             on_ok (py_getitem vib 0) (\<lambda>file_code.
             on_ok (py_get data ''data'' (JList [])) (\<lambda>d'.
             on_ok (py_getitem d' 1) (\<lambda>download_url.
               let stream_data_block = find_stream_data_block items
               in if \<not> truthy stream_data_block
                  then Inl (HTTPException 500 ''Stream data block not found'')
                  else
                    on_ok (py_getitem (the stream_data_block) 7) (\<lambda>quality_info.
                      Inr (base_url, file_code, download_url, quality_info)))))))
       | _ \<Rightarrow> Inl (HTTPException 500 ''Invalid video info format'')) = Inr (base, fc, dl, qi)"
    unfolding locate_fields_def on_ok_Inr_iff by blast
  from rest obtain items where items: "vib = JList items"
    by (cases vib) simp_all
  from rest items have len: "2 \<le> length items"
    by (simp split: if_splits)
  let ?found = "List.find is_stream_block (concat (map dict_values items))"
  from rest items len d have
    "py_getitem (items ! 1) 0 = Inr base \<and> fc = items ! 0 \<and> py_getitem d 1 = Inr dl \<and>
     truthy ?found \<and> py_getitem (the ?found) 7 = Inr qi"
    by (auto simp: on_ok_Inr_iff py_getitem_list Let_def find_stream_data_block_def
        scan_items_find split: if_splits)
  moreover from this obtain v where v: "?found = Some v"
    by (auto simp: find_block_truthy)
  moreover from find_block_Some [OF v] obtain blk qs where
    "v = JList blk" "7 < length blk" "blk ! 7 = JList qs"
    by blast
  ultimately show ?R
    using d vib items len by (auto simp: py_getitem_list)
next
  assume ?R
  then obtain d items blk where
    d: "py_get data ''data'' (JList []) = Inr d" and
    vib: "py_getitem d 0 = Inr (JList items)" and len: "2 \<le> length items" and
    base: "py_getitem (items ! 1) 0 = Inr base" and fc: "fc = items ! 0" and
    dl: "py_getitem d 1 = Inr dl" and
    found: "List.find is_stream_block (concat (map dict_values items)) = Some (JList blk)" and
    blk: "7 < length blk" "qi = blk ! 7"
    by blast
  have t: "truthy (List.find is_stream_block (concat (map dict_values items)))"
    unfolding find_block_truthy using found by simp
  from len have i0: "py_getitem (JList items) 0 = Inr (items ! 0)"
    and i1: "py_getitem (JList items) 1 = Inr (items ! 1)"
    by (auto simp: py_getitem_def)
  from blk have i7: "py_getitem (JList blk) 7 = Inr qi"
    by (simp add: py_getitem_def)
  show ?L
    using d vib len base fc dl found t i0 i1 i7
    by (simp add: locate_fields_def Let_def find_stream_data_block_def scan_items_find)
qed

lemma locate_fields_quality_list:
  "locate_fields data = Inr (base, fc, dl, qi) \<Longrightarrow> \<exists>qs. qi = JList qs"
  by (auto simp: locate_fields_Inr_iff dest!: find_block_Some)

lemma extract_tree_Inr_iff:
  "extract_tree data = Inr r \<longleftrightarrow>
     (\<exists>base fc dl qs ss.
        locate_fields data = Inr (base, fc, dl, JList qs) \<and> stream_urls base qs = Inr ss \<and>
        r = \<lparr>status = True, host = ''googlephoto'', filecode = fc,
              poster = py_str base @ ''=w1920-h1080-no'', streams = ss, download = dl,
              vtt = JNull\<rparr>)"
  (is "?L \<longleftrightarrow> ?R")
proof
  assume ?L
  then obtain base fc dl qi qs ss where
    loc: "locate_fields data = Inr (base, fc, dl, qi)" and
    it: "py_iter qi = Inr qs" and ss: "stream_urls base qs = Inr ss" and
    r: "r = \<lparr>status = True, host = ''googlephoto'', filecode = fc,
              poster = py_str base @ ''=w1920-h1080-no'', streams = ss, download = dl,
              vtt = JNull\<rparr>"
    by (auto simp: extract_tree_def parse_handler_Inr_iff try_body_def on_ok_Inr_iff)
  from locate_fields_quality_list [OF loc] it have "qi = JList qs"
    by (auto simp: py_iter_def)
  with loc ss r show ?R by blast
next
  assume ?R
  then show ?L
    by (auto simp: extract_tree_def parse_handler_def try_body_def py_iter_def)
qed



subsection \<open>How extraction can fail\<close>

lemma find_none_candidates:
  "List.find is_stream_block (concat (map dict_values items)) = None \<longleftrightarrow>
     (\<forall>item\<in>set items. \<forall>v\<in>set (dict_values item). \<not> is_stream_block v)"
  by (auto simp: find_None_iff)

lemma locate_fields_dict_Inl:
  assumes "locate_fields (JDict kv) = Inl e"
  shows "parse_caught e \<or> e = HTTPException 500 ''Invalid video info format''
         \<or> e = HTTPException 500 ''Stream data block not found''"
proof -
  obtain d where d: "py_get (JDict kv) ''data'' (JList []) = Inr d"
    by (simp add: py_get_def)
  show ?thesis
  proof (cases "py_getitem d 0")
    case (Inl e')
    with assms d show ?thesis
      by (auto simp: locate_fields_def dest: py_getitem_Inl_caught)
  next
    case (Inr vib)
    show ?thesis
    proof (cases "\<exists>items. vib = JList items \<and> 2 \<le> length items")
      case False
      with assms d Inr show ?thesis
        by (cases vib) (auto simp: locate_fields_def split: if_splits)
    next
      case True
      then obtain items where "vib = JList items" "2 \<le> length items" by blast
      with assms d Inr show ?thesis
        by (auto simp: locate_fields_def on_ok_Inl_iff Let_def split: if_splits
            dest: py_getitem_Inl_caught)
    qed
  qed
qed

lemma try_body_dict_Inl:
  assumes "try_body (JDict kv) = Inl e"
  shows "parse_caught e \<or> e = HTTPException 500 ''Invalid video info format''
         \<or> e = HTTPException 500 ''Stream data block not found''"
  using assms
  by (auto simp: try_body_def on_ok_Inl_iff
      dest: locate_fields_dict_Inl py_iter_Inl_caught stream_urls_Inl_caught)

lemma extract_tree_dict_outcome:
  "(\<exists>r. extract_tree (JDict kv) = Inr r)
   \<or> extract_tree (JDict kv) = Inl (HTTPException 500 ''Invalid video info format'')
   \<or> extract_tree (JDict kv) = Inl (HTTPException 500 ''Stream data block not found'')
   \<or> (\<exists>e. parse_caught e \<and>
          extract_tree (JDict kv) = Inl (HTTPException 500 (''Could not parse data: '' @ exn_str e)))"
proof (cases "try_body (JDict kv)")
  case (Inr r)
  then show ?thesis by (simp add: extract_tree_def parse_handler_def)
next
  case (Inl e)
  from try_body_dict_Inl [OF Inl] Inl show ?thesis
    by (auto simp: extract_tree_def parse_handler_def parse_caught_def)
qed

lemma extract_tree_not_dict:
  "(\<forall>kv. data \<noteq> JDict kv) \<Longrightarrow> extract_tree data = Inl (AttributeError (type_name data) ''get'')"
  by (cases data)
    (simp_all add: extract_tree_def try_body_def locate_fields_def py_get_def type_name_def
      parse_handler_def parse_caught_def)

subsection \<open>The handler\<close>

lemma str_contains_iff: "str_contains needle hay \<longleftrightarrow> (\<exists>pre post. hay = pre @ needle @ post)"
  by (simp add: str_contains_def sublist_def)

lemma empty_url_rejected:
  "extract_links net decode [] st =
     (Inl (HTTPException 400 ''Invalid or missing Google Photos URL''), st)"
  by (simp add: extract_links_def)

lemma fst_extract_links:
  "fst (extract_links net decode URL st) =
     (if URL = [] \<or> (\<not> str_contains ''photos.app.goo.gl'' URL
                      \<and> \<not> str_contains ''photos.google.com'' URL)
      then Inl (HTTPException 400 ''Invalid or missing Google Photos URL'')
      else
        (case on_ok (fst (net URL (session st))) raise_for_status of
           Inl e \<Rightarrow>
             if fetch_caught e
             then Inl (HTTPException 500 (''Could not fetch URL: '' @ exn_str e))
             else Inl e
         | Inr r \<Rightarrow>
             (case re_search (body r) of
                None \<Rightarrow> Inl (HTTPException 500 ''Could not find data block'')
              | Some txt \<Rightarrow> parse_block decode txt)))"
  by (auto simp: extract_links_def get_google_photos_links_def fetch_def client_get_def
      split_def Let_def result_bool_def on_ok_def split: sum.splits)

lemma snd_extract_links:
  "snd (extract_links net decode URL st) =
     (if URL = [] \<or> (\<not> str_contains ''photos.app.goo.gl'' URL
                      \<and> \<not> str_contains ''photos.google.com'' URL)
      then st
      else st\<lparr>requests := requests st @ [URL], session := snd (net URL (session st))\<rparr>)"
  by (simp add: extract_links_def get_google_photos_links_def fetch_def client_get_def
      split_def Let_def)

lemma request_error_surfaces:
  assumes "str_contains ''photos.app.goo.gl'' URL \<or> str_contains ''photos.google.com'' URL"
    and "net URL (session st) = (Inl (RequestError m), s')"
  shows "extract_links net decode URL st =
           (Inl (HTTPException 500 (''Could not fetch URL: '' @ m)),
            st\<lparr>requests := requests st @ [URL], session := s'\<rparr>)"
proof -
  from assms(1) have "URL \<noteq> []"
    by (auto simp: str_contains_def)
  with assms show ?thesis
    by (simp add: prod_eq_iff fst_extract_links snd_extract_links fetch_caught_def exn_str_def)
qed

lemma non_2xx_status_raises:
  assumes "str_contains ''photos.app.goo.gl'' URL \<or> str_contains ''photos.google.com'' URL"
    and "net URL (session st) = (Inr r, s')"
    and "status_code r < 200 \<or> 299 < status_code r"
  shows "extract_links net decode URL st =
           (Inl (HTTPStatusError (status_code r)),
            st\<lparr>requests := requests st @ [URL], session := s'\<rparr>)"
proof -
  from assms(1) have "URL \<noteq> []"
    by (auto simp: str_contains_def)
  with assms show ?thesis
    by (auto simp: prod_eq_iff fst_extract_links snd_extract_links fetch_caught_def
        raise_for_status_def)
qed

lemma timeout_surfaces:
  "extract_links timeout_net decode example_url fresh_client =
     (Inl (HTTPException 500 ''Could not fetch URL: timed out''),
      \<lparr>requests = [example_url], session = 1\<rparr>)"
proof -
  have v: "str_contains ''photos.app.goo.gl'' example_url
           \<or> str_contains ''photos.google.com'' example_url"
    by code_simp
  have n: "timeout_net example_url (session fresh_client) = (Inl (RequestError ''timed out''), 1)"
    by (simp add: timeout_net_def fresh_client_def)
  from request_error_surfaces [where net = timeout_net and st = fresh_client, OF v n]
  show ?thesis
    by (simp add: fresh_client_def)
qed

text \<open>A page whose block decodes to a list: AttributeError leaves the handler.\<close>

lemma list_page_unhandled:
  "extract_links list_net list_decode example_url fresh_client =
     (Inl (AttributeError ''list'' ''get''), \<lparr>requests = [example_url], session = 1\<rparr>)"
  by code_simp

section \<open>The claims\<close>

text \<open>
  C1. The stream data block is the first value, in scan order, that is a list of more than
  seven elements with a list at index 7: the scan (elements of \<open>video_info_block\<close> in order,
  values of each dict in insertion order) returns exactly the first qualifying value and
  ignores every later one.
\<close>

theorem stream_block_first_match:
  "find_stream_data_block items = List.find is_stream_block (concat (map dict_values items))"
  by (simp add: find_stream_data_block_def scan_items_find)

text \<open>
  C1 on a block with three qualifying values, in two dicts: the first one is taken.
\<close>

theorem stream_block_first_match_witness:
  "find_stream_data_block two_blocks = Some (block_of [JList [JInt 22, JInt 1280, JInt 720]])
   \<and> List.find is_stream_block (concat (map dict_values two_blocks))
       = Some (block_of [JList [JInt 22, JInt 1280, JInt 720]])"
proof -
  have "List.find is_stream_block (concat (map dict_values two_blocks))
          = Some (block_of [JList [JInt 22, JInt 1280, JInt 720]])"
    by code_simp
  with stream_block_first_match [of two_blocks] show ?thesis by simp
qed

text \<open>
  C2. When extraction succeeds, \<open>streams\<close> has one entry per element of \<open>quality_info\<close>, in
  the same order, and the label of entry \<open>i\<close> is the quality map's for the code (element 0 of
  variant \<open>i\<close>, as a string): 37 gives 1080p, 22 gives 720p, 18 gives 360p, 36 gives 180p, and
  any other code gives \<open>Resolution {width}x{height}\<close> from elements 1 and 2 of the same variant.
\<close>

theorem streams_follow_quality_info:
  assumes "extract_tree data = Inr r"
  shows "\<exists>base fc dl qs.
           locate_fields data = Inr (base, fc, dl, JList qs) \<and>
           length (streams r) = length qs \<and>
           (\<forall>i<length qs. \<exists>code width height.
              py_getitem (qs ! i) 0 = Inr code \<and>
              py_getitem (qs ! i) 1 = Inr width \<and>
              py_getitem (qs ! i) 2 = Inr height \<and>
              label (streams r ! i) =
                (if py_str code = ''37'' then ''1080p''
                 else if py_str code = ''22'' then ''720p''
                 else if py_str code = ''18'' then ''360p''
                 else if py_str code = ''36'' then ''180p''
                 else ''Resolution '' @ py_str width @ ''x'' @ py_str height))"
proof -
  from assms obtain base fc dl qs ss where
    loc: "locate_fields data = Inr (base, fc, dl, JList qs)" and
    ss: "stream_urls base qs = Inr ss" and r: "streams r = ss"
    by (auto simp: extract_tree_Inr_iff)
  from ss have len: "length ss = length qs"
    and each: "\<forall>i<length qs. stream_entry base (qs ! i) = Inr (ss ! i)"
    by (simp_all add: stream_urls_Inr_iff)
  have "\<exists>code width height.
              py_getitem (qs ! i) 0 = Inr code \<and>
              py_getitem (qs ! i) 1 = Inr width \<and>
              py_getitem (qs ! i) 2 = Inr height \<and>
              label (ss ! i) =
                (if py_str code = ''37'' then ''1080p''
                 else if py_str code = ''22'' then ''720p''
                 else if py_str code = ''18'' then ''360p''
                 else if py_str code = ''36'' then ''180p''
                 else ''Resolution '' @ py_str width @ ''x'' @ py_str height)"
    if "i < length qs" for i
  proof -
    from each that have "stream_entry base (qs ! i) = Inr (ss ! i)" by simp
    then obtain code width height where
      g: "py_getitem (qs ! i) 0 = Inr code" "py_getitem (qs ! i) 1 = Inr width"
         "py_getitem (qs ! i) 2 = Inr height" and
      e: "ss ! i = \<lparr>label = (case quality_map (py_str code) of
                         Some l \<Rightarrow> l
                       | None \<Rightarrow> ''Resolution '' @ py_str width @ ''x'' @ py_str height),
              url = py_str base @ ''=m'' @ py_str code\<rparr>"
      unfolding stream_entry_Inr_iff by blast
    from e have "label (ss ! i) = (case quality_map (py_str code) of
                         Some l \<Rightarrow> l
                       | None \<Rightarrow> ''Resolution '' @ py_str width @ ''x'' @ py_str height)"
      by simp
    with g show ?thesis
      unfolding quality_map_label by blast
  qed
  with loc len r show ?thesis by blast
qed

text \<open>C2 on the example tree.\<close>

theorem streams_follow_quality_info_witness:
  "extract_tree example_tree = Inr example_result \<and>
   (\<exists>base fc dl qs.
           locate_fields example_tree = Inr (base, fc, dl, JList qs) \<and>
           length (streams example_result) = length qs \<and>
           (\<forall>i<length qs. \<exists>code width height.
              py_getitem (qs ! i) 0 = Inr code \<and>
              py_getitem (qs ! i) 1 = Inr width \<and>
              py_getitem (qs ! i) 2 = Inr height \<and>
              label (streams example_result ! i) =
                (if py_str code = ''37'' then ''1080p''
                 else if py_str code = ''22'' then ''720p''
                 else if py_str code = ''18'' then ''360p''
                 else if py_str code = ''36'' then ''180p''
                 else ''Resolution '' @ py_str width @ ''x'' @ py_str height)))"
proof -
  have h: "extract_tree example_tree = Inr example_result" by code_simp
  from h streams_follow_quality_info [OF h] show ?thesis by blast
qed

text \<open>
  C3. When extraction succeeds, \<open>poster\<close> is the base URL (\<open>data[0][1][0]\<close>) followed by
  \<open>=w1920-h1080-no\<close>, and the \<open>url\<close> of entry \<open>i\<close> is the base URL followed by \<open>=m\<close> and the
  code of variant \<open>i\<close> (its element 0).
\<close>

theorem poster_and_stream_urls:
  assumes "extract_tree data = Inr r"
  shows "\<exists>d items base fc dl qs.
           py_get data ''data'' (JList []) = Inr d \<and>
           py_getitem d 0 = Inr (JList items) \<and>
           py_getitem (items ! 1) 0 = Inr base \<and>
           locate_fields data = Inr (base, fc, dl, JList qs) \<and>
           poster r = py_str base @ ''=w1920-h1080-no'' \<and>
           length (streams r) = length qs \<and>
           (\<forall>i<length qs. \<exists>code.
              py_getitem (qs ! i) 0 = Inr code \<and>
              url (streams r ! i) = py_str base @ ''=m'' @ py_str code)"
proof -
  from assms obtain base fc dl qs ss where
    loc: "locate_fields data = Inr (base, fc, dl, JList qs)" and
    ss: "stream_urls base qs = Inr ss" and r: "streams r = ss"
    and p: "poster r = py_str base @ ''=w1920-h1080-no''"
    by (auto simp: extract_tree_Inr_iff)
  from loc obtain d items where
    d: "py_get data ''data'' (JList []) = Inr d" "py_getitem d 0 = Inr (JList items)"
       "py_getitem (items ! 1) 0 = Inr base"
    unfolding locate_fields_Inr_iff by blast
  from ss have len: "length ss = length qs"
    and each: "\<forall>i<length qs. stream_entry base (qs ! i) = Inr (ss ! i)"
    by (simp_all add: stream_urls_Inr_iff)
  have "\<exists>code. py_getitem (qs ! i) 0 = Inr code \<and>
              url (ss ! i) = py_str base @ ''=m'' @ py_str code"
    if "i < length qs" for i
  proof -
    from each that have "stream_entry base (qs ! i) = Inr (ss ! i)" by simp
    then show ?thesis
      unfolding stream_entry_Inr_iff by auto
  qed
  with loc d len r p show ?thesis by blast
qed

text \<open>C3 on the example tree.\<close>

theorem poster_and_stream_urls_witness:
  "extract_tree example_tree = Inr example_result \<and>
   (\<exists>d items base fc dl qs.
           py_get example_tree ''data'' (JList []) = Inr d \<and>
           py_getitem d 0 = Inr (JList items) \<and>
           py_getitem (items ! 1) 0 = Inr base \<and>
           locate_fields example_tree = Inr (base, fc, dl, JList qs) \<and>
           poster example_result = py_str base @ ''=w1920-h1080-no'' \<and>
           length (streams example_result) = length qs \<and>
           (\<forall>i<length qs. \<exists>code.
              py_getitem (qs ! i) 0 = Inr code \<and>
              url (streams example_result ! i) = py_str base @ ''=m'' @ py_str code))"
proof -
  have h: "extract_tree example_tree = Inr example_result" by code_simp
  from h poster_and_stream_urls [OF h] show ?thesis by blast
qed

text \<open>
  C4. A URL that contains neither \<open>photos.app.goo.gl\<close> nor \<open>photos.google.com\<close> (the empty
  URL among them) is answered with HTTPException 400, detail
  \<open>Invalid or missing Google Photos URL\<close>, and the client is left as it was: no request is
  sent.
\<close>

theorem invalid_url_rejected:
  assumes "\<not> str_contains ''photos.app.goo.gl'' URL"
    and "\<not> str_contains ''photos.google.com'' URL"
  shows "extract_links net decode URL st =
           (Inl (HTTPException 400 ''Invalid or missing Google Photos URL''), st)"
  using assms by (simp add: extract_links_def)

text \<open>C4 on a URL of another host.\<close>

theorem invalid_url_rejected_witness:
  "\<not> str_contains ''photos.app.goo.gl'' ''https://example.com/photos'' \<and>
   \<not> str_contains ''photos.google.com'' ''https://example.com/photos'' \<and>
   extract_links example_net example_decode ''https://example.com/photos'' fresh_client =
     (Inl (HTTPException 400 ''Invalid or missing Google Photos URL''), fresh_client)"
proof -
  have a: "\<not> str_contains ''photos.app.goo.gl'' ''https://example.com/photos''" by code_simp
  have b: "\<not> str_contains ''photos.google.com'' ''https://example.com/photos''" by code_simp
  from a b invalid_url_rejected [OF a b, of example_net example_decode fresh_client]
  show ?thesis by blast
qed

text \<open>
  C5. The claim: a network failure, a timeout or a non-2xx status all end in HTTPException 500
  with detail \<open>Could not fetch URL\<close>. The handler of line 40 catches \<open>httpx.RequestError\<close>
  only, and \<open>raise_for_status\<close> raises \<open>httpx.HTTPStatusError\<close>, which is not one: on a page
  answered with status 404 the HTTPStatusError leaves the function uncaught, after the single
  request.
\<close>

theorem non_2xx_status_escapes_fetch_handler:
  "extract_links not_found_net decode ''https://photos.app.goo.gl/abc'' fresh_client =
     (Inl (HTTPStatusError 404),
      \<lparr>requests = [''https://photos.app.goo.gl/abc''], session = 1\<rparr>)"
proof -
  have v: "str_contains ''photos.app.goo.gl'' ''https://photos.app.goo.gl/abc''
           \<or> str_contains ''photos.google.com'' ''https://photos.app.goo.gl/abc''"
    by code_simp
  have n: "not_found_net ''https://photos.app.goo.gl/abc'' (session fresh_client) =
             (Inr \<lparr>status_code = 404, body = ''Not Found''\<rparr>, 1)"
    by (simp add: not_found_net_def fresh_client_def)
  from non_2xx_status_raises [where net = not_found_net and st = fresh_client, OF v n]
  show ?thesis
    by (simp add: fresh_client_def)
qed

text \<open>
  C6, as stated, fails: in the tree \<open>{"data": [["FC1", 5], "dl"]}\<close> no element of
  \<open>video_info_block\<close> is a dict, yet the detail is that of the TypeError raised by
  \<open>video_info_block[1][0]\<close> at line 57, before the scan.
\<close>

theorem stream_block_absent_counterexample:
  "List.find is_stream_block (concat (map dict_values [JStr ''FC1'', JInt 5])) = None
   \<and> extract_tree (JDict [(KStr ''data'', JList [JList [JStr ''FC1'', JInt 5], JStr ''dl''])])
       = Inl (HTTPException 500
               (''Could not parse data: '' @ quoted ''int'' @ '' object is not subscriptable''))
   \<and> extract_tree (JDict [(KStr ''data'', JList [JList [JStr ''FC1'', JInt 5], JStr ''dl''])])
       \<noteq> Inl (HTTPException 500 ''Stream data block not found'')"
  by code_simp

text \<open>
  C6, amended. When the reads before the scan succeed (the top level is a dict, \<open>data[0]\<close> is a
  list of at least two elements, \<open>data[0][1][0]\<close> and \<open>data[1]\<close> can be read) and no value of
  a dict among the elements of \<open>video_info_block\<close> is a list of more than seven elements with a
  list at index 7, extraction fails with HTTPException 500 and the detail is exactly
  \<open>Stream data block not found\<close>.
\<close>

theorem stream_block_absent:
  assumes "py_get data ''data'' (JList []) = Inr d"
    and "py_getitem d 0 = Inr (JList items)"
    and "2 \<le> length items"
    and "py_getitem (items ! 1) 0 = Inr base"
    and "py_getitem d 1 = Inr dl"
    and "\<forall>item\<in>set items. \<forall>v\<in>set (dict_values item). \<not> is_stream_block v"
  shows "extract_tree data = Inl (HTTPException 500 ''Stream data block not found'')"
proof -
  from assms(6) have none: "find_stream_data_block items = None"
    by (simp add: find_stream_data_block_def scan_items_find find_none_candidates)
  from assms(3) have i0: "py_getitem (JList items) 0 = Inr (items ! 0)"
    and i1: "py_getitem (JList items) 1 = Inr (items ! 1)"
    by (auto simp: py_getitem_def)
  from assms(1,2,3,4,5) none i0 i1
  have "locate_fields data = Inl (HTTPException 500 ''Stream data block not found'')"
    by (simp add: locate_fields_def Let_def truthy_def)
  then show ?thesis
    by (simp add: extract_tree_def try_body_def parse_handler_def parse_caught_def)
qed

text \<open>C6, amended, on a tree whose only dict value has three elements.\<close>

theorem stream_block_absent_witness:
  "py_get no_block_tree ''data'' (JList [])
     = Inr (JList [JList [JStr ''FC1'', JList [JStr ''https://base.url'', JInt 0],
                          JDict [(KStr ''k'', JList [JInt 0, JInt 0, JInt 0])]],
                   JStr ''https://download.url''])
   \<and> extract_tree no_block_tree = Inl (HTTPException 500 ''Stream data block not found'')"
proof -
  let ?items = "[JStr ''FC1'', JList [JStr ''https://base.url'', JInt 0],
                 JDict [(KStr ''k'', JList [JInt 0, JInt 0, JInt 0])]]"
  let ?d = "JList [JList ?items, JStr ''https://download.url'']"
  have a: "py_get no_block_tree ''data'' (JList []) = Inr ?d" by code_simp
  have b: "py_getitem ?d 0 = Inr (JList ?items)" by code_simp
  have c: "2 \<le> length ?items" by simp
  have d: "py_getitem (?items ! 1) 0 = Inr (JStr ''https://base.url'')" by code_simp
  have e: "py_getitem ?d 1 = Inr (JStr ''https://download.url'')" by code_simp
  have f: "\<forall>item\<in>set ?items. \<forall>v\<in>set (dict_values item). \<not> is_stream_block v"
    by (simp add: dict_values_def is_stream_block_def)
  from a stream_block_absent [OF a b c d e f] show ?thesis by simp
qed

text \<open>
  C7. The claim: every shape error, a top-level value that is not a mapping among them, ends in
  the parse error. On the top-level list \<open>[]\<close>, \<open>data.get\<close> of line 52 raises AttributeError,
  which the handler of line 97 does not catch: it leaves the function as it is.
\<close>

theorem non_mapping_tree_escapes_parse_handler:
  "extract_tree (JList []) = Inl (AttributeError ''list'' ''get'')
   \<and> \<not> parse_caught (AttributeError ''list'' ''get'')"
  by code_simp

text \<open>
  C8. On the example tree extraction succeeds, with file code \<open>FC1\<close>, poster
  \<open>https://base.url=w1920-h1080-no\<close>, the two streams \<open>1080p\<close> at \<open>https://base.url=m37\<close> and
  \<open>360p\<close> at \<open>https://base.url=m18\<close>, and download \<open>https://download.url\<close>.
\<close>

theorem example_tree_result:
  "extract_tree
     (JDict [(KStr ''data'',
        JList [JList [JStr ''FC1'',
                      JList [JStr ''https://base.url'', JInt 0],
                      JDict [(KStr ''k'',
                         JList [JInt 0, JInt 0, JInt 0, JInt 0, JInt 0, JInt 0, JInt 0,
                                JList [JList [JInt 37, JInt 1920, JInt 1080],
                                       JList [JInt 18, JInt 640, JInt 360]]])]],
               JStr ''https://download.url''])])
   = Inr \<lparr>status = True, host = ''googlephoto'', filecode = JStr ''FC1'',
           poster = ''https://base.url=w1920-h1080-no'',
           streams = [\<lparr>label = ''1080p'', url = ''https://base.url=m37''\<rparr>,
                      \<lparr>label = ''360p'', url = ''https://base.url=m18''\<rparr>],
           download = JStr ''https://download.url'', vtt = JNull\<rparr>"
  by code_simp

text \<open>
  C9. The answer to a request depends on the URL and on what the transport returns for it
  only: two calls with the same URL, from any two states of the client (the second may be
  the state the first call left), give the same result whenever the transport returns the
  same outcome for the URL in both.
\<close>

theorem extract_links_deterministic:
  assumes "fst (net URL (session st1)) = fst (net URL (session st2))"
  shows "fst (extract_links net decode URL st1) = fst (extract_links net decode URL st2)"
  unfolding fst_extract_links using assms by simp

text \<open>
  C9 on two calls in a row, the second from the state the first one left; the transport's
  session state has changed in between, the page has not.
\<close>

theorem extract_links_deterministic_witness:
  "fst (example_net example_url (session fresh_client)) =
     fst (example_net example_url
            (session (snd (extract_links example_net example_decode example_url fresh_client))))
   \<and> fst (extract_links example_net example_decode example_url fresh_client) =
       fst (extract_links example_net example_decode example_url
              (snd (extract_links example_net example_decode example_url fresh_client)))
   \<and> fst (extract_links example_net example_decode example_url fresh_client) = Inr example_result"
proof -
  have h: "fst (example_net example_url (session fresh_client)) =
     fst (example_net example_url
            (session (snd (extract_links example_net example_decode example_url fresh_client))))"
    by (simp add: example_net_def)
  have r: "fst (extract_links example_net example_decode example_url fresh_client) = Inr example_result"
    by code_simp
  from h r
    extract_links_deterministic
      [where net = example_net and URL = example_url and decode = example_decode
         and ?st1.0 = fresh_client
         and ?st2.0 = "snd (extract_links example_net example_decode example_url fresh_client)",
       OF h]
  show ?thesis by blast
qed




end
